theory Spec2Isabelle
  imports Complex_Main
begin

section \<open>The users proxy of \<open>backend.py\<close>\<close>

text \<open>
  \<open>backend.py\<close> is a Flask application of five routes. Each route validates the
  inbound request, issues at most one call to the Backendless REST endpoint through
  the \<open>requests\<close> library and reshapes the answer. The embedding below follows the
  file function by function. What the libraries contribute is made explicit:

  \<^item> a JSON document is a value of the datatype \<open>json\<close>, the Python object that
    \<open>response.json()\<close> and \<open>request.get_json()\<close> return;
  \<^item> the upstream is a function from the outbound call to either the text of a
    \<open>requests.exceptions.RequestException\<close> or the response received;
  \<^item> every handler returns the list of outbound calls it issued together with its
    outcome: a body and a status, or the exception that left the handler uncaught.
\<close>

subsection \<open>JSON values as Python sees them\<close>

text \<open>
  \<open>JObj\<close> is a \<open>dict\<close> in insertion order, \<open>JNull\<close> is \<open>None\<close>. A dict that comes
  out of a JSON parser has pairwise distinct keys; lookups go through \<open>map_of\<close>.
  \<open>JFloat\<close> stands for a finite Python float.
\<close>

datatype json =
    JNull
  | JBool bool
  | JInt int
  | JFloat real
  | JStr string
  | JArr "json list"
  | JObj "(string \<times> json) list"

text \<open>Exceptions that no handler of the file catches, as Flask receives them.\<close>

datatype failure = BadRequest | AttributeError | TypeError | KeyError

text \<open>Python truth value testing, the meaning of \<open>not x\<close> and \<open>x or y\<close>.\<close>

fun truthy :: "json \<Rightarrow> bool" where
  "truthy JNull = False"
| "truthy (JBool b) = b"
| "truthy (JInt i) = (i \<noteq> 0)"
| "truthy (JFloat x) = (x \<noteq> 0)"
| "truthy (JStr s) = (s \<noteq> [])"
| "truthy (JArr xs) = (xs \<noteq> [])"
| "truthy (JObj kvs) = (kvs \<noteq> [])"

text \<open>
  \<open>data.get(key, default)\<close>: only a dict has the method; on any other value the
  attribute lookup raises \<open>AttributeError\<close>.
\<close>

fun py_get :: "json \<Rightarrow> string \<Rightarrow> json \<Rightarrow> failure + json" where
  "py_get (JObj kvs) key dflt =
     Inr (case map_of kvs key of None \<Rightarrow> dflt | Some v \<Rightarrow> v)"
| "py_get _ key dflt = Inl AttributeError"

text \<open>\<open>key in s\<close> for two strings: \<open>key\<close> occurs in \<open>s\<close> as a contiguous run.\<close>

definition substring :: "string \<Rightarrow> string \<Rightarrow> bool" where
  "substring key s =
     list_ex (\<lambda>i. take (length key) (drop i s) = key) [0 ..< Suc (length s)]"

text \<open>
  \<open>key in data\<close> for a string \<open>key\<close>: key membership on a dict, element
  membership on a list, substring test on a string, \<open>TypeError\<close> on a number, a
  boolean or \<open>None\<close>.
\<close>

fun py_contains :: "string \<Rightarrow> json \<Rightarrow> failure + bool" where
  "py_contains key (JObj kvs) = Inr (key \<in> set (map fst kvs))"
| "py_contains key (JArr xs) = Inr (JStr key \<in> set xs)"
| "py_contains key (JStr s) = Inr (substring key s)"
| "py_contains key _ = Inl TypeError"

text \<open>
  \<open>data[key]\<close> for a string \<open>key\<close>: the value on a dict (\<open>KeyError\<close> when the
  key is absent), \<open>TypeError\<close> on everything else.
\<close>

fun py_getitem :: "json \<Rightarrow> string \<Rightarrow> failure + json" where
  "py_getitem (JObj kvs) key =
     (case map_of kvs key of None \<Rightarrow> Inl KeyError | Some v \<Rightarrow> Inr v)"
| "py_getitem _ key = Inl TypeError"

subsection \<open>Requests, responses and the upstream\<close>

text \<open>
  The upstream answer as \<open>requests\<close> presents it: \<open>response.status_code\<close>,
  \<open>response.text\<close> (the field \<open>response_text\<close>), and the result of
  \<open>response.json()\<close>, \<open>None\<close> when it raises
  \<open>requests.exceptions.JSONDecodeError\<close>.
\<close>

record response =
  status_code :: int
  response_text :: string
  json_result :: "json option"

text \<open>
  \<open>response.ok\<close> of \<open>requests\<close>: true unless \<open>raise_for_status()\<close> would raise,
  which it does for a status from 400 to 599.
\<close>

definition ok :: "response \<Rightarrow> bool" where
  "ok response = (\<not> (400 \<le> status_code response \<and> status_code response < 600))"

text \<open>
  The inbound Flask request: \<open>request.is_json\<close> (the content type announces JSON)
  and the result of \<open>request.get_json()\<close>, \<open>None\<close> when the body does not parse and
  Flask raises \<open>BadRequest\<close>.
\<close>

record request =
  is_json :: bool
  get_json :: "json option"

datatype http_method = GET | POST | PUT | DELETE

record http_call =
  call_method :: http_method
  call_url :: string
  call_json :: "json option"

text \<open>
  The upstream: \<open>Inl msg\<close> when the call raises a \<open>RequestException\<close> \<open>e\<close> with
  \<open>str(e) = msg\<close>, \<open>Inr\<close> the response otherwise.
\<close>

type_synonym upstream = "http_call \<Rightarrow> string + response"

text \<open>
  What a view returns: \<open>Inr (body, status)\<close> for \<open>jsonify(body), status\<close>, or
  \<open>Inl\<close> the exception that escaped it.
\<close>

type_synonym outcome = "failure + (json \<times> int)"

text \<open>
  The status line Flask sends: the status the view returned; 400 for \<open>BadRequest\<close>,
  an HTTP exception; 500 for any other uncaught exception.
\<close>

fun http_status :: "outcome \<Rightarrow> int" where
  "http_status (Inr (body, status)) = status"
| "http_status (Inl BadRequest) = 400"
| "http_status (Inl _) = 500"

definition BACKENDLESS_API_URL :: string where
  "BACKENDLESS_API_URL = ''https://strongquestion-us.backendless.app/api/data/users1''"

subsection \<open>Response normalization\<close>

definition backendless_response :: "response \<Rightarrow> outcome" where
  "backendless_response response =
     (case json_result response of
        None \<Rightarrow>
          Inr (JObj [(''message'',
                 JStr (if response_text response \<noteq> [] then response_text response
                       else ''Operation successful''))],
               status_code response)
      | Some data \<Rightarrow>
          if ok response then Inr (data, status_code response)
          else
            (case py_get data ''message''
                    (JStr ''An unexpected Backendless error occurred.'') of
               Inl exn \<Rightarrow> Inl exn
             | Inr error_message \<Rightarrow>
                 Inr (JObj [(''error'', error_message), (''details'', data)],
                      status_code response)))"

text \<open>The body of every \<open>except requests.exceptions.RequestException as e\<close>.\<close>

definition connectivity_error :: "string \<Rightarrow> outcome" where
  "connectivity_error e =
     Inr (JObj [(''error'', JStr ''Failed to connect to Backendless API''),
                (''details'', JStr e)], 503)"

subsection \<open>The five routes\<close>

definition get_all_users :: "upstream \<Rightarrow> http_call list \<times> outcome" where
  "get_all_users up =
     (let call = \<lparr>call_method = GET, call_url = BACKENDLESS_API_URL, call_json = None\<rparr>
      in case up call of
           Inl e \<Rightarrow> ([call], connectivity_error e)
         | Inr response \<Rightarrow> ([call], backendless_response response))"

definition create_user :: "upstream \<Rightarrow> request \<Rightarrow> http_call list \<times> outcome" where
  "create_user up request =
     (if \<not> is_json request
      then ([], Inr (JObj [(''error'', JStr ''Missing JSON in request'')], 400))
      else
        (case get_json request of
          None \<Rightarrow> ([], Inl BadRequest)
        | Some data \<Rightarrow>
            (case py_get data ''nombre'' JNull of
               Inl exn \<Rightarrow> ([], Inl exn)
             | Inr nombre \<Rightarrow>
                 (case py_get data ''email'' JNull of
                    Inl exn \<Rightarrow> ([], Inl exn)
                  | Inr email \<Rightarrow>
                      if \<not> truthy nombre \<or> \<not> truthy email
                      then ([], Inr (JObj [(''error'',
                              JStr (''Missing required fields: '' @ [CHR 0x27] @ ''nombre''
                                    @ [CHR 0x27] @ '' and '' @ [CHR 0x27] @ ''email''
                                    @ [CHR 0x27]))], 400))
                      else
                        (let payload = JObj [(''nombre'', nombre), (''email'', email)];
                             call = \<lparr>call_method = POST, call_url = BACKENDLESS_API_URL,
                                     call_json = Some payload\<rparr>
                         in (case up call of
                               Inl e \<Rightarrow> ([call], connectivity_error e)
                             | Inr response \<Rightarrow>
                                 ([call], backendless_response response)))))))"

definition get_user :: "upstream \<Rightarrow> string \<Rightarrow> http_call list \<times> outcome" where
  "get_user up object_id =
     (let user_url = BACKENDLESS_API_URL @ ''/'' @ object_id;
          call = \<lparr>call_method = GET, call_url = user_url, call_json = None\<rparr>
      in case up call of
           Inl e \<Rightarrow> ([call], connectivity_error e)
         | Inr response \<Rightarrow> ([call], backendless_response response))"

text \<open>
  Lines 100 to 104 of the file: the payload of an update, built from the keys that
  are present, \<open>nombre\<close> before \<open>email\<close>.
\<close>

definition update_payload :: "json \<Rightarrow> failure + (string \<times> json) list" where
  "update_payload data =
     (case py_contains ''nombre'' data of
        Inl exn \<Rightarrow> Inl exn
      | Inr has_nombre \<Rightarrow>
          (case (if has_nombre
                 then (case py_getitem data ''nombre'' of
                         Inl exn \<Rightarrow> Inl exn
                       | Inr v \<Rightarrow> Inr [(''nombre'', v)])
                 else Inr []) of
             Inl exn \<Rightarrow> Inl exn
           | Inr payload \<Rightarrow>
               (case py_contains ''email'' data of
                  Inl exn \<Rightarrow> Inl exn
                | Inr has_email \<Rightarrow>
                    if has_email
                    then (case py_getitem data ''email'' of
                            Inl exn \<Rightarrow> Inl exn
                          | Inr v \<Rightarrow> Inr (payload @ [(''email'', v)]))
                    else Inr payload)))"

definition update_user :: "upstream \<Rightarrow> string \<Rightarrow> request \<Rightarrow> http_call list \<times> outcome" where
  "update_user up object_id request =
     (if \<not> is_json request
      then ([], Inr (JObj [(''error'', JStr ''Missing JSON in request'')], 400))
      else
        (case get_json request of
          None \<Rightarrow> ([], Inl BadRequest)
        | Some data \<Rightarrow>
            (let user_url = BACKENDLESS_API_URL @ ''/'' @ object_id
             in (case update_payload data of
                  Inl exn \<Rightarrow> ([], Inl exn)
                | Inr payload \<Rightarrow>
                    if payload = []
                    then ([], Inr (JObj [(''error'',
                            JStr (''No valid fields provided for update ('' @ [CHR 0x27]
                                  @ ''nombre'' @ [CHR 0x27] @ '' or '' @ [CHR 0x27]
                                  @ ''email'' @ [CHR 0x27] @ '')''))], 400))
                    else
                      (let call = \<lparr>call_method = PUT, call_url = user_url,
                                     call_json = Some (JObj payload)\<rparr>
                       in (case up call of
                             Inl e \<Rightarrow> ([call], connectivity_error e)
                           | Inr response \<Rightarrow>
                               ([call], backendless_response response)))))))"

definition delete_user :: "upstream \<Rightarrow> string \<Rightarrow> http_call list \<times> outcome" where
  "delete_user up object_id =
     (let user_url = BACKENDLESS_API_URL @ ''/'' @ object_id;
          call = \<lparr>call_method = DELETE, call_url = user_url, call_json = None\<rparr>
      in case up call of
           Inl e \<Rightarrow> ([call], connectivity_error e)
         | Inr response \<Rightarrow>
             if status_code response = 200 \<or> status_code response = 204
             then ([call],
                   Inr (JObj [(''message'',
                          JStr (''User '' @ object_id @ '' successfully deleted''))], 200))
             else ([call], backendless_response response))"

subsection \<open>Routing\<close>

text \<open>
  The URL map that the \<open>@app.route\<close> decorators build: \<open>GET /users\<close>,
  \<open>POST /users\<close>, and \<open>GET\<close>, \<open>PUT\<close>, \<open>DELETE\<close> on \<open>/users/<object_id>\<close>.
\<close>

datatype operation =
    ListUsers
  | CreateUser request
  | GetUser string
  | UpdateUser string request
  | DeleteUser string

fun dispatch_request :: "upstream \<Rightarrow> operation \<Rightarrow> http_call list \<times> outcome" where
  "dispatch_request up ListUsers = get_all_users up"
| "dispatch_request up (CreateUser request) = create_user up request"
| "dispatch_request up (GetUser object_id) = get_user up object_id"
| "dispatch_request up (UpdateUser object_id request) = update_user up object_id request"
| "dispatch_request up (DeleteUser object_id) = delete_user up object_id"

text \<open>
  An operation reaches response normalization with the upstream response \<open>r\<close> when it
  issued its call, the call returned \<open>r\<close>, and the route is not the shortcut of
  \<open>delete_user\<close> for the statuses 200 and 204.
\<close>

fun shortcut :: "operation \<Rightarrow> response \<Rightarrow> bool" where
  "shortcut (DeleteUser object_id) r = (status_code r = 200 \<or> status_code r = 204)"
| "shortcut _ r = False"

definition reaches_normalization :: "upstream \<Rightarrow> operation \<Rightarrow> response \<Rightarrow> bool" where
  "reaches_normalization up op r =
     (case fst (dispatch_request up op) of
        [call] \<Rightarrow> up call = Inr r \<and> \<not> shortcut op r
      | _ \<Rightarrow> False)"

text \<open>An upstream that gives the same answer to every call.\<close>

definition always :: "string + response \<Rightarrow> upstream" where
  "always answer call = answer"

subsection \<open>Example traffic\<close>

text \<open>
  The exchange of the specification's example: \<open>POST /users\<close> with Ana's record, and
  the upstream's answer 200 carrying the record with its assigned identifier.
\<close>

definition ana_request :: request where
  "ana_request =
     \<lparr>is_json = True,
      get_json = Some (JObj [(''nombre'', JStr ''Ana''), (''email'', JStr ''ana@x.com'')])\<rparr>"

definition ana_created :: response where
  \<open>ana_created =
     \<lparr>status_code = 200,
      response_text = ''{"objectId":"abc123","nombre":"Ana","email":"ana@x.com"}'',
      json_result = Some (JObj [(''objectId'', JStr ''abc123''), (''nombre'', JStr ''Ana''),
                                (''email'', JStr ''ana@x.com'')])\<rparr>\<close>

text \<open>A create request that carries a field beyond \<open>nombre\<close> and \<open>email\<close>.\<close>

definition ana_admin_request :: request where
  "ana_admin_request =
     \<lparr>is_json = True,
      get_json = Some (JObj [(''nombre'', JStr ''Ana''), (''role'', JStr ''admin''),
                             (''email'', JStr ''ana@x.com'')])\<rparr>"

text \<open>Request bodies \<open>{"nombre": ""}\<close>, \<open>{"email": null}\<close>, \<open>{}\<close>, \<open>[]\<close> and \<open>42\<close>.\<close>

definition empty_nombre_request :: request where
  "empty_nombre_request = \<lparr>is_json = True, get_json = Some (JObj [(''nombre'', JStr '''')])\<rparr>"

definition null_email_request :: request where
  "null_email_request = \<lparr>is_json = True, get_json = Some (JObj [(''email'', JNull)])\<rparr>"

definition empty_object_request :: request where
  "empty_object_request = \<lparr>is_json = True, get_json = Some (JObj [])\<rparr>"

definition empty_array_request :: request where
  "empty_array_request = \<lparr>is_json = True, get_json = Some (JArr [])\<rparr>"

definition number_request :: request where
  "number_request = \<lparr>is_json = True, get_json = Some (JInt 42)\<rparr>"

text \<open>Upstream answers: an error document with 404, an empty document with 300, no body
  with 204, and a body that is not JSON with 502.\<close>

definition entity_not_found :: response where
  \<open>entity_not_found =
     \<lparr>status_code = 404,
      response_text = ''{"code":1000,"message":"Entity not found"}'',
      json_result = Some (JObj [(''code'', JInt 1000),
                                (''message'', JStr ''Entity not found'')])\<rparr>\<close>

definition multiple_choices :: response where
  "multiple_choices =
     \<lparr>status_code = 300, response_text = ''{}'', json_result = Some (JObj [])\<rparr>"

definition no_content :: response where
  "no_content = \<lparr>status_code = 204, response_text = '''', json_result = None\<rparr>"

definition bad_gateway :: response where
  "bad_gateway =
     \<lparr>status_code = 502, response_text = ''Bad Gateway'', json_result = None\<rparr>"

section \<open>Properties\<close>

subsection \<open>Library facts\<close>

lemma ok_2xx: "200 \<le> status_code r \<Longrightarrow> status_code r < 300 \<Longrightarrow> ok r"
  by (simp add: ok_def)

lemma py_contains_object: "py_contains key (JObj kvs) = Inr (map_of kvs key \<noteq> None)"
  by (simp add: map_of_eq_None_iff)

lemma update_payload_object:
  "update_payload (JObj kvs) =
     Inr ((case map_of kvs ''nombre'' of None \<Rightarrow> [] | Some a \<Rightarrow> [(''nombre'', a)]) @
          (case map_of kvs ''email'' of None \<Rightarrow> [] | Some b \<Rightarrow> [(''email'', b)]))"
  by (simp add: update_payload_def py_contains_object del: py_contains.simps
      split: option.splits)

subsection \<open>The three branches of \<open>backendless_response\<close>\<close>

lemma backendless_response_no_json:
  "json_result r = None \<Longrightarrow>
   backendless_response r =
     Inr (JObj [(''message'', JStr (if response_text r = [] then ''Operation successful''
                                    else response_text r))], status_code r)"
  by (simp add: backendless_response_def)

lemma backendless_response_ok:
  "json_result r = Some d \<Longrightarrow> ok r \<Longrightarrow> backendless_response r = Inr (d, status_code r)"
  by (simp add: backendless_response_def)

lemma backendless_response_error:
  "json_result r = Some (JObj kvs) \<Longrightarrow> \<not> ok r \<Longrightarrow>
   backendless_response r =
     Inr (JObj [(''error'', case map_of kvs ''message'' of
                               None \<Rightarrow> JStr ''An unexpected Backendless error occurred.''
                             | Some m \<Rightarrow> m),
                (''details'', JObj kvs)], status_code r)"
  by (simp add: backendless_response_def)

text \<open>
  On an error status, a JSON document that is not an object has no \<open>get\<close>: the
  \<open>AttributeError\<close> leaves the handler.
\<close>

lemma backendless_response_error_not_object:
  "json_result r = Some d \<Longrightarrow> \<not> ok r \<Longrightarrow> (\<forall>kvs. d \<noteq> JObj kvs) \<Longrightarrow>
   backendless_response r = Inl AttributeError"
  by (cases d) (simp_all add: backendless_response_def)

subsection \<open>What each route does with the upstream\<close>

lemma normalization_result:
  "reaches_normalization up op r \<Longrightarrow> snd (dispatch_request up op) = backendless_response r"
proof (cases op)
  case ListUsers
  assume "reaches_normalization up op r"
  with ListUsers show ?thesis
    by (auto simp: reaches_normalization_def get_all_users_def Let_def split: sum.splits)
next
  case (CreateUser rq)
  assume "reaches_normalization up op r"
  with CreateUser show ?thesis
    by (auto simp: reaches_normalization_def create_user_def Let_def
        split: sum.splits option.splits if_splits)
next
  case (GetUser oid)
  assume "reaches_normalization up op r"
  with GetUser show ?thesis
    by (auto simp: reaches_normalization_def get_user_def Let_def split: sum.splits)
next
  case (UpdateUser oid rq)
  assume "reaches_normalization up op r"
  with UpdateUser show ?thesis
    by (auto simp: reaches_normalization_def update_user_def Let_def
        split: sum.splits option.splits if_splits)
next
  case (DeleteUser oid)
  assume "reaches_normalization up op r"
  with DeleteUser show ?thesis
    by (auto simp: reaches_normalization_def delete_user_def Let_def
        split: sum.splits if_splits)
qed

lemma create_user_valid:
  assumes "is_json rq" and "get_json rq = Some (JObj kvs)"
    and "map_of kvs ''nombre'' = Some n" and "map_of kvs ''email'' = Some e"
    and "truthy n" and "truthy e"
  shows "create_user up rq =
    ([\<lparr>call_method = POST, call_url = BACKENDLESS_API_URL,
       call_json = Some (JObj [(''nombre'', n), (''email'', e)])\<rparr>],
     case up \<lparr>call_method = POST, call_url = BACKENDLESS_API_URL,
               call_json = Some (JObj [(''nombre'', n), (''email'', e)])\<rparr> of
       Inl msg \<Rightarrow> connectivity_error msg
     | Inr r \<Rightarrow> backendless_response r)"
  using assms by (simp add: create_user_def Let_def split: sum.splits)

lemma create_user_missing_fields:
  assumes "is_json rq" and "get_json rq = Some (JObj kvs)"
    and "\<not> truthy (case map_of kvs ''nombre'' of None \<Rightarrow> JNull | Some v \<Rightarrow> v) \<or>
         \<not> truthy (case map_of kvs ''email'' of None \<Rightarrow> JNull | Some v \<Rightarrow> v)"
  shows "fst (create_user up rq) = [] \<and> http_status (snd (create_user up rq)) = 400"
  using assms by (auto simp: create_user_def)

lemma update_user_no_fields:
  assumes "is_json rq" and "get_json rq = Some (JObj kvs)"
    and "map_of kvs ''nombre'' = None" and "map_of kvs ''email'' = None"
  shows "fst (update_user up oid rq) = [] \<and> http_status (snd (update_user up oid rq)) = 400"
  using assms by (simp add: update_user_def update_payload_object)

lemma update_user_fields:
  assumes "is_json rq" and "get_json rq = Some (JObj kvs)"
    and "payload =
      (case map_of kvs ''nombre'' of None \<Rightarrow> [] | Some a \<Rightarrow> [(''nombre'', a)]) @
      (case map_of kvs ''email'' of None \<Rightarrow> [] | Some b \<Rightarrow> [(''email'', b)])"
    and "payload \<noteq> []"
  shows "update_user up oid rq =
    ([\<lparr>call_method = PUT, call_url = BACKENDLESS_API_URL @ ''/'' @ oid,
       call_json = Some (JObj payload)\<rparr>],
     case up \<lparr>call_method = PUT, call_url = BACKENDLESS_API_URL @ ''/'' @ oid,
               call_json = Some (JObj payload)\<rparr> of
       Inl msg \<Rightarrow> connectivity_error msg
     | Inr r \<Rightarrow> backendless_response r)"
  using assms by (simp add: update_user_def update_payload_object Let_def split: sum.splits)

subsection \<open>Normalized answers of the operations\<close>

text \<open>
  C1, as the specification states it, fails: the handler tests \<open>response.ok\<close>, so a
  status outside 2xx that is below 400 takes the success branch. An upstream 300 with
  the JSON body \<open>{}\<close> comes back as \<open>{}\<close>, not as an \<open>error\<close>/\<open>details\<close> document.
\<close>

theorem non_2xx_below_400_counterexample:
  "json_result multiple_choices = Some (JObj []) \<and>
   \<not> (200 \<le> status_code multiple_choices \<and> status_code multiple_choices < 300) \<and>
   reaches_normalization (always (Inr multiple_choices)) ListUsers multiple_choices \<and>
   snd (dispatch_request (always (Inr multiple_choices)) ListUsers) = Inr (JObj [], 300) \<and>
   snd (dispatch_request (always (Inr multiple_choices)) ListUsers) \<noteq>
     Inr (JObj [(''error'', JStr ''An unexpected Backendless error occurred.''),
                (''details'', JObj [])], 300)"
  by (simp add: multiple_choices_def reaches_normalization_def get_all_users_def always_def
      backendless_response_def ok_def Let_def)

text \<open>
  C1, amended: when the upstream body parses as a JSON object and the status is an error
  status of the HTTP client (from 400 to 599), \<open>backendless_response\<close>, and every operation
  that reaches it, returns \<open>{error: m, details: d}\<close> with the upstream's status code,
  where \<open>d\<close> is the whole upstream object and \<open>m\<close> its \<open>message\<close> field when present
  and the default string otherwise.
\<close>

theorem upstream_error_wrapped:
  assumes "json_result r = Some (JObj kvs)"
    and "400 \<le> status_code r" and "status_code r < 600"
    and "m = (case map_of kvs ''message'' of
                None \<Rightarrow> JStr ''An unexpected Backendless error occurred.''
              | Some v \<Rightarrow> v)"
  shows "backendless_response r =
           Inr (JObj [(''error'', m), (''details'', JObj kvs)], status_code r) \<and>
         (reaches_normalization up op r \<longrightarrow>
            snd (dispatch_request up op) =
              Inr (JObj [(''error'', m), (''details'', JObj kvs)], status_code r))"
proof -
  from assms(2,3) have "\<not> ok r" by (simp add: ok_def)
  with assms(1,4) have "backendless_response r =
      Inr (JObj [(''error'', m), (''details'', JObj kvs)], status_code r)"
    by (simp add: backendless_response_error)
  then show ?thesis by (simp add: normalization_result)
qed

theorem upstream_error_wrapped_witness:
  "json_result entity_not_found =
     Some (JObj [(''code'', JInt 1000), (''message'', JStr ''Entity not found'')]) \<and>
   400 \<le> status_code entity_not_found \<and> status_code entity_not_found < 600 \<and>
   reaches_normalization (always (Inr entity_not_found)) (DeleteUser ''abc123'')
     entity_not_found \<and>
   snd (dispatch_request (always (Inr entity_not_found)) (DeleteUser ''abc123'')) =
     Inr (JObj [(''error'', JStr ''Entity not found''),
                (''details'', JObj [(''code'', JInt 1000),
                                    (''message'', JStr ''Entity not found'')])], 404)"
proof -
  have j: "json_result entity_not_found =
      Some (JObj [(''code'', JInt 1000), (''message'', JStr ''Entity not found'')])"
    by (simp add: entity_not_found_def)
  have lo: "400 \<le> status_code entity_not_found"
    and hi: "status_code entity_not_found < 600"
    by (simp_all add: entity_not_found_def)
  have n: "reaches_normalization (always (Inr entity_not_found)) (DeleteUser ''abc123'')
      entity_not_found"
    by (simp add: reaches_normalization_def delete_user_def always_def Let_def
        entity_not_found_def)
  have s: "status_code entity_not_found = 404" by (simp add: entity_not_found_def)
  from upstream_error_wrapped [OF j lo hi refl,
      of "always (Inr entity_not_found)" "DeleteUser ''abc123''"] n j lo hi s
  show ?thesis by simp
qed

text \<open>
  C2: when the upstream body parses as JSON and the response is successful
  (\<open>response.ok\<close>, which every 2xx status satisfies), \<open>backendless_response\<close>, and every
  operation that reaches it, returns the parsed body unchanged with the upstream's exact
  status code.
\<close>

theorem upstream_success_passthrough:
  assumes "json_result r = Some d"
    and "(200 \<le> status_code r \<and> status_code r < 300) \<or> ok r"
  shows "backendless_response r = Inr (d, status_code r) \<and>
         (reaches_normalization up op r \<longrightarrow>
            snd (dispatch_request up op) = Inr (d, status_code r))"
proof -
  from assms(2) have "ok r" by (auto simp: ok_2xx)
  with assms(1) have "backendless_response r = Inr (d, status_code r)"
    by (rule backendless_response_ok)
  then show ?thesis by (simp add: normalization_result)
qed

theorem upstream_success_passthrough_witness:
  "json_result ana_created =
     Some (JObj [(''objectId'', JStr ''abc123''), (''nombre'', JStr ''Ana''),
                 (''email'', JStr ''ana@x.com'')]) \<and>
   200 \<le> status_code ana_created \<and> status_code ana_created < 300 \<and>
   reaches_normalization (always (Inr ana_created)) (CreateUser ana_request) ana_created \<and>
   snd (dispatch_request (always (Inr ana_created)) (CreateUser ana_request)) =
     Inr (JObj [(''objectId'', JStr ''abc123''), (''nombre'', JStr ''Ana''),
                (''email'', JStr ''ana@x.com'')], 200)"
proof -
  have j: "json_result ana_created =
      Some (JObj [(''objectId'', JStr ''abc123''), (''nombre'', JStr ''Ana''),
                  (''email'', JStr ''ana@x.com'')])"
    by (simp add: ana_created_def)
  have k: "200 \<le> status_code ana_created \<and> status_code ana_created < 300"
    by (simp add: ana_created_def)
  then have k': "(200 \<le> status_code ana_created \<and> status_code ana_created < 300) \<or>
      ok ana_created" ..
  have n: "reaches_normalization (always (Inr ana_created)) (CreateUser ana_request)
      ana_created"
    by (simp add: reaches_normalization_def create_user_def always_def Let_def
        ana_request_def)
  have s: "status_code ana_created = 200" by (simp add: ana_created_def)
  from upstream_success_passthrough [OF j k',
      of "always (Inr ana_created)" "CreateUser ana_request"] n j k s
  show ?thesis by simp
qed

text \<open>
  C8: when the upstream body does not parse as JSON, \<open>backendless_response\<close>, and every
  operation that reaches it, returns \<open>{message: t}\<close> with the upstream's status code,
  where \<open>t\<close> is the raw response text, or \<open>Operation successful\<close> when the text is
  empty.
\<close>

theorem upstream_non_json_message:
  assumes "json_result r = None"
    and "t = (if response_text r = [] then ''Operation successful'' else response_text r)"
  shows "backendless_response r = Inr (JObj [(''message'', JStr t)], status_code r) \<and>
         (reaches_normalization up op r \<longrightarrow>
            snd (dispatch_request up op) =
              Inr (JObj [(''message'', JStr t)], status_code r))"
proof -
  from assms have "backendless_response r =
      Inr (JObj [(''message'', JStr t)], status_code r)"
    by (simp add: backendless_response_no_json)
  then show ?thesis by (simp add: normalization_result)
qed

theorem upstream_non_json_message_witness:
  "json_result bad_gateway = None \<and>
   reaches_normalization (always (Inr bad_gateway)) (GetUser ''abc123'') bad_gateway \<and>
   snd (dispatch_request (always (Inr bad_gateway)) (GetUser ''abc123'')) =
     Inr (JObj [(''message'', JStr ''Bad Gateway'')], 502) \<and>
   json_result no_content = None \<and>
   reaches_normalization (always (Inr no_content)) (UpdateUser ''abc123'' ana_request)
     no_content \<and>
   snd (dispatch_request (always (Inr no_content)) (UpdateUser ''abc123'' ana_request)) =
     Inr (JObj [(''message'', JStr ''Operation successful'')], 204)"
proof -
  have j1: "json_result bad_gateway = None" and j2: "json_result no_content = None"
    by (simp_all add: bad_gateway_def no_content_def)
  have n1: "reaches_normalization (always (Inr bad_gateway)) (GetUser ''abc123'') bad_gateway"
    by (simp add: reaches_normalization_def get_user_def always_def Let_def)
  have n2: "reaches_normalization (always (Inr no_content))
      (UpdateUser ''abc123'' ana_request) no_content"
    by (simp add: reaches_normalization_def update_user_def update_payload_object always_def
        Let_def ana_request_def)
  have v: "response_text bad_gateway = ''Bad Gateway''" "status_code bad_gateway = 502"
    "response_text no_content = []" "status_code no_content = 204"
    by (simp_all add: bad_gateway_def no_content_def)
  from upstream_non_json_message [OF j1 refl,
      of "always (Inr bad_gateway)" "GetUser ''abc123''"]
    upstream_non_json_message [OF j2 refl,
      of "always (Inr no_content)" "UpdateUser ''abc123'' ana_request"]
    j1 j2 n1 n2 v
  show ?thesis by simp
qed

subsection \<open>Delete\<close>

text \<open>
  C3: when the upstream \<open>DELETE\<close> call returns status 200 or 204, \<open>delete_user\<close> returns
  local status 200 with the body \<open>{message: "User <id> successfully deleted"}\<close>, \<open><id>\<close>
  being the \<open>object_id\<close> path segment, whatever the upstream body is.
\<close>

theorem delete_user_success:
  assumes "call = \<lparr>call_method = DELETE, call_url = BACKENDLESS_API_URL @ ''/'' @ object_id,
                    call_json = None\<rparr>"
    and "up call = Inr r"
    and "status_code r = 200 \<or> status_code r = 204"
  shows "delete_user up object_id =
           ([call], Inr (JObj [(''message'',
                           JStr (''User '' @ object_id @ '' successfully deleted''))], 200))"
  using assms by (auto simp: delete_user_def Let_def)

theorem delete_user_success_witness:
  "always (Inr no_content)
     \<lparr>call_method = DELETE, call_url = BACKENDLESS_API_URL @ ''/'' @ ''abc123'',
      call_json = None\<rparr> = Inr no_content \<and>
   status_code no_content = 204 \<and>
   delete_user (always (Inr no_content)) ''abc123'' =
     ([\<lparr>call_method = DELETE, call_url = BACKENDLESS_API_URL @ ''/'' @ ''abc123'',
        call_json = None\<rparr>],
      Inr (JObj [(''message'', JStr ''User abc123 successfully deleted'')], 200)) \<and>
   always (Inr ana_created)
     \<lparr>call_method = DELETE, call_url = BACKENDLESS_API_URL @ ''/'' @ ''abc123'',
      call_json = None\<rparr> = Inr ana_created \<and>
   status_code ana_created = 200 \<and>
   delete_user (always (Inr ana_created)) ''abc123'' =
     ([\<lparr>call_method = DELETE, call_url = BACKENDLESS_API_URL @ ''/'' @ ''abc123'',
        call_json = None\<rparr>],
      Inr (JObj [(''message'', JStr ''User abc123 successfully deleted'')], 200))"
proof -
  have u1: "always (Inr no_content)
      \<lparr>call_method = DELETE, call_url = BACKENDLESS_API_URL @ ''/'' @ ''abc123'',
       call_json = None\<rparr> = Inr no_content"
    and u2: "always (Inr ana_created)
      \<lparr>call_method = DELETE, call_url = BACKENDLESS_API_URL @ ''/'' @ ''abc123'',
       call_json = None\<rparr> = Inr ana_created"
    by (simp_all add: always_def)
  have s1: "status_code no_content = 204" and s2: "status_code ana_created = 200"
    by (simp_all add: no_content_def ana_created_def)
  from s1 have d1: "status_code no_content = 200 \<or> status_code no_content = 204" ..
  from s2 have d2: "status_code ana_created = 200 \<or> status_code ana_created = 204" ..
  from delete_user_success [where object_id = "''abc123''"
        and up = "always (Inr no_content)", OF refl u1 d1]
    delete_user_success [where object_id = "''abc123''"
        and up = "always (Inr ana_created)", OF refl u2 d2]
    u1 u2 s1 s2
  show ?thesis by simp
qed

subsection \<open>Connectivity errors\<close>

text \<open>
  C6: when the outbound call of an operation raises a \<open>RequestException\<close> with message
  \<open>e\<close>, the operation returns local status 503 with the body
  \<open>{error: "Failed to connect to Backendless API", details: e}\<close>, and that call is the
  only one it issues: the error is not retried.
\<close>

theorem connectivity_error_503:
  assumes "fst (dispatch_request up op) = call # calls"
    and "up call = Inl e"
  shows "dispatch_request up op =
           ([call], Inr (JObj [(''error'', JStr ''Failed to connect to Backendless API''),
                               (''details'', JStr e)], 503))"
proof (cases op)
  case ListUsers
  with assms show ?thesis
    by (auto simp: get_all_users_def connectivity_error_def Let_def split: sum.splits)
next
  case (CreateUser rq)
  with assms show ?thesis
    by (auto simp: create_user_def connectivity_error_def Let_def
        split: sum.splits option.splits if_splits)
next
  case (GetUser oid)
  with assms show ?thesis
    by (auto simp: get_user_def connectivity_error_def Let_def split: sum.splits)
next
  case (UpdateUser oid rq)
  with assms show ?thesis
    by (auto simp: update_user_def connectivity_error_def Let_def
        split: sum.splits option.splits if_splits)
next
  case (DeleteUser oid)
  with assms show ?thesis
    by (auto simp: delete_user_def connectivity_error_def Let_def
        split: sum.splits if_splits)
qed

theorem connectivity_error_503_witness:
  "fst (dispatch_request (always (Inl ''Connection refused'')) ListUsers) =
     \<lparr>call_method = GET, call_url = BACKENDLESS_API_URL, call_json = None\<rparr> # [] \<and>
   fst (dispatch_request (always (Inl ''Connection refused'')) (CreateUser ana_request)) =
     \<lparr>call_method = POST, call_url = BACKENDLESS_API_URL,
      call_json = Some (JObj [(''nombre'', JStr ''Ana''),
                              (''email'', JStr ''ana@x.com'')])\<rparr> # [] \<and>
   fst (dispatch_request (always (Inl ''Connection refused'')) (GetUser ''abc123'')) =
     \<lparr>call_method = GET, call_url = BACKENDLESS_API_URL @ ''/abc123'',
      call_json = None\<rparr> # [] \<and>
   fst (dispatch_request (always (Inl ''Connection refused''))
          (UpdateUser ''abc123'' ana_request)) =
     \<lparr>call_method = PUT, call_url = BACKENDLESS_API_URL @ ''/abc123'',
      call_json = Some (JObj [(''nombre'', JStr ''Ana''),
                              (''email'', JStr ''ana@x.com'')])\<rparr> # [] \<and>
   fst (dispatch_request (always (Inl ''Connection refused'')) (DeleteUser ''abc123'')) =
     \<lparr>call_method = DELETE, call_url = BACKENDLESS_API_URL @ ''/abc123'',
      call_json = None\<rparr> # [] \<and>
   snd (dispatch_request (always (Inl ''Connection refused'')) ListUsers) =
     Inr (JObj [(''error'', JStr ''Failed to connect to Backendless API''),
                (''details'', JStr ''Connection refused'')], 503) \<and>
   snd (dispatch_request (always (Inl ''Connection refused'')) (CreateUser ana_request)) =
     Inr (JObj [(''error'', JStr ''Failed to connect to Backendless API''),
                (''details'', JStr ''Connection refused'')], 503) \<and>
   snd (dispatch_request (always (Inl ''Connection refused'')) (GetUser ''abc123'')) =
     Inr (JObj [(''error'', JStr ''Failed to connect to Backendless API''),
                (''details'', JStr ''Connection refused'')], 503) \<and>
   snd (dispatch_request (always (Inl ''Connection refused''))
          (UpdateUser ''abc123'' ana_request)) =
     Inr (JObj [(''error'', JStr ''Failed to connect to Backendless API''),
                (''details'', JStr ''Connection refused'')], 503) \<and>
   snd (dispatch_request (always (Inl ''Connection refused'')) (DeleteUser ''abc123'')) =
     Inr (JObj [(''error'', JStr ''Failed to connect to Backendless API''),
                (''details'', JStr ''Connection refused'')], 503)"
proof -
  let ?up = "always (Inl ''Connection refused'')"
  have down: "?up call = Inl ''Connection refused''" for call
    by (simp add: always_def)
  have c1: "fst (dispatch_request ?up ListUsers) =
      \<lparr>call_method = GET, call_url = BACKENDLESS_API_URL, call_json = None\<rparr> # []"
    by (simp add: get_all_users_def always_def Let_def)
  have c2: "fst (dispatch_request ?up (CreateUser ana_request)) =
      \<lparr>call_method = POST, call_url = BACKENDLESS_API_URL,
       call_json = Some (JObj [(''nombre'', JStr ''Ana''),
                               (''email'', JStr ''ana@x.com'')])\<rparr> # []"
    by (simp add: create_user_def ana_request_def always_def Let_def)
  have c3: "fst (dispatch_request ?up (GetUser ''abc123'')) =
      \<lparr>call_method = GET, call_url = BACKENDLESS_API_URL @ ''/abc123'',
       call_json = None\<rparr> # []"
    by (simp add: get_user_def always_def Let_def)
  have c4: "fst (dispatch_request ?up (UpdateUser ''abc123'' ana_request)) =
      \<lparr>call_method = PUT, call_url = BACKENDLESS_API_URL @ ''/abc123'',
       call_json = Some (JObj [(''nombre'', JStr ''Ana''),
                               (''email'', JStr ''ana@x.com'')])\<rparr> # []"
    by (simp add: update_user_def update_payload_object ana_request_def always_def Let_def)
  have c5: "fst (dispatch_request ?up (DeleteUser ''abc123'')) =
      \<lparr>call_method = DELETE, call_url = BACKENDLESS_API_URL @ ''/abc123'',
       call_json = None\<rparr> # []"
    by (simp add: delete_user_def always_def Let_def)
  from connectivity_error_503 [OF c1 down] connectivity_error_503 [OF c2 down]
    connectivity_error_503 [OF c3 down] connectivity_error_503 [OF c4 down]
    connectivity_error_503 [OF c5 down] c1 c2 c3 c4 c5
  show ?thesis by simp
qed

subsection \<open>Get by id\<close>

text \<open>
  C7, as the specification states it, fails: on an upstream 404 with a JSON error
  document \<open>get_user\<close> keeps the status but answers an \<open>error\<close>/\<open>details\<close> document that
  wraps the upstream's, not the upstream's document itself.
\<close>

theorem get_user_404_body_counterexample:
  "status_code entity_not_found = 404 \<and>
   json_result entity_not_found =
     Some (JObj [(''code'', JInt 1000), (''message'', JStr ''Entity not found'')]) \<and>
   snd (get_user (always (Inr entity_not_found)) ''abc123'') =
     Inr (JObj [(''error'', JStr ''Entity not found''),
                (''details'', JObj [(''code'', JInt 1000),
                                    (''message'', JStr ''Entity not found'')])], 404) \<and>
   snd (get_user (always (Inr entity_not_found)) ''abc123'') \<noteq>
     Inr (JObj [(''code'', JInt 1000), (''message'', JStr ''Entity not found'')], 404)"
  by (simp add: entity_not_found_def get_user_def always_def backendless_response_def ok_def
      Let_def)

text \<open>
  C7, amended: when the upstream answers a get-by-id call with status 404 and a JSON
  object \<open>d\<close>, \<open>get_user\<close> returns status 404 with the body \<open>{error: m, details: d}\<close>:
  the upstream's document unchanged under \<open>details\<close>, and under \<open>error\<close> its \<open>message\<close>
  field when present and the default string otherwise.
\<close>

theorem get_user_404_wrapped:
  assumes "call = \<lparr>call_method = GET, call_url = BACKENDLESS_API_URL @ ''/'' @ object_id,
                    call_json = None\<rparr>"
    and "up call = Inr r"
    and "status_code r = 404"
    and "json_result r = Some (JObj kvs)"
    and "m = (case map_of kvs ''message'' of
                None \<Rightarrow> JStr ''An unexpected Backendless error occurred.''
              | Some v \<Rightarrow> v)"
  shows "get_user up object_id =
           ([call], Inr (JObj [(''error'', m), (''details'', JObj kvs)], 404))"
proof -
  from assms(3) have "\<not> ok r" by (simp add: ok_def)
  with assms(3,4,5) have "backendless_response r =
      Inr (JObj [(''error'', m), (''details'', JObj kvs)], 404)"
    by (simp add: backendless_response_error)
  with assms(1,2) show ?thesis by (simp add: get_user_def Let_def)
qed

theorem get_user_404_wrapped_witness:
  "always (Inr entity_not_found)
     \<lparr>call_method = GET, call_url = BACKENDLESS_API_URL @ ''/'' @ ''abc123'',
      call_json = None\<rparr> = Inr entity_not_found \<and>
   status_code entity_not_found = 404 \<and>
   json_result entity_not_found =
     Some (JObj [(''code'', JInt 1000), (''message'', JStr ''Entity not found'')]) \<and>
   get_user (always (Inr entity_not_found)) ''abc123'' =
     ([\<lparr>call_method = GET, call_url = BACKENDLESS_API_URL @ ''/'' @ ''abc123'',
        call_json = None\<rparr>],
      Inr (JObj [(''error'', JStr ''Entity not found''),
                 (''details'', JObj [(''code'', JInt 1000),
                                     (''message'', JStr ''Entity not found'')])], 404))"
proof -
  have u: "always (Inr entity_not_found)
      \<lparr>call_method = GET, call_url = BACKENDLESS_API_URL @ ''/'' @ ''abc123'',
       call_json = None\<rparr> = Inr entity_not_found"
    by (simp add: always_def)
  have s: "status_code entity_not_found = 404"
    and j: "json_result entity_not_found =
      Some (JObj [(''code'', JInt 1000), (''message'', JStr ''Entity not found'')])"
    by (simp_all add: entity_not_found_def)
  from get_user_404_wrapped [where object_id = "''abc123''"
        and up = "always (Inr entity_not_found)", OF refl u s j refl] u s j
  show ?thesis by simp
qed

subsection \<open>Create\<close>

text \<open>
  C4 fails on the code for a JSON body that is not an object: \<open>POST /users\<close> with the
  body \<open>[]\<close> has neither field, but \<open>data.get('nombre')\<close> raises \<open>AttributeError\<close> on the
  list, no handler catches it, and the answer is 500 instead of 400. No upstream call
  is issued.
\<close>

theorem create_user_array_body:
  "create_user up empty_array_request = ([], Inl AttributeError) \<and>
   http_status (snd (create_user up empty_array_request)) = 500"
  by (simp add: create_user_def empty_array_request_def)

theorem create_user_array_body_witness:
  "is_json empty_array_request \<and> get_json empty_array_request = Some (JArr []) \<and>
   create_user (always (Inr ana_created)) empty_array_request = ([], Inl AttributeError) \<and>
   http_status (snd (create_user (always (Inr ana_created)) empty_array_request)) = 500"
  using create_user_array_body [of "always (Inr ana_created)"]
  by (simp add: empty_array_request_def)

text \<open>
  C9: for a create request whose JSON body is an object with non-empty (truthy)
  \<open>nombre\<close> and \<open>email\<close>, \<open>create_user\<close> issues exactly one upstream call, a \<open>POST\<close> to the
  collection whose body is \<open>{nombre, email}\<close> with the request's two values; no other
  field of the request body is forwarded.
\<close>

theorem create_user_payload:
  assumes "is_json rq" and "get_json rq = Some (JObj kvs)"
    and "map_of kvs ''nombre'' = Some n" and "map_of kvs ''email'' = Some e"
    and "truthy n" and "truthy e"
  shows "fst (create_user up rq) =
           [\<lparr>call_method = POST, call_url = BACKENDLESS_API_URL,
             call_json = Some (JObj [(''nombre'', n), (''email'', e)])\<rparr>]"
  using assms by (simp add: create_user_valid)

theorem create_user_payload_witness:
  "is_json ana_admin_request \<and>
   get_json ana_admin_request =
     Some (JObj [(''nombre'', JStr ''Ana''), (''role'', JStr ''admin''),
                 (''email'', JStr ''ana@x.com'')]) \<and>
   map_of [(''nombre'', JStr ''Ana''), (''role'', JStr ''admin''),
           (''email'', JStr ''ana@x.com'')] ''nombre'' = Some (JStr ''Ana'') \<and>
   map_of [(''nombre'', JStr ''Ana''), (''role'', JStr ''admin''),
           (''email'', JStr ''ana@x.com'')] ''email'' = Some (JStr ''ana@x.com'') \<and>
   truthy (JStr ''Ana'') \<and> truthy (JStr ''ana@x.com'') \<and>
   fst (create_user (always (Inr ana_created)) ana_admin_request) =
     [\<lparr>call_method = POST, call_url = BACKENDLESS_API_URL,
       call_json = Some (JObj [(''nombre'', JStr ''Ana''),
                               (''email'', JStr ''ana@x.com'')])\<rparr>]"
proof -
  have a: "is_json ana_admin_request"
    and b: "get_json ana_admin_request =
      Some (JObj [(''nombre'', JStr ''Ana''), (''role'', JStr ''admin''),
                  (''email'', JStr ''ana@x.com'')])"
    by (simp_all add: ana_admin_request_def)
  have c: "map_of [(''nombre'', JStr ''Ana''), (''role'', JStr ''admin''),
      (''email'', JStr ''ana@x.com'')] ''nombre'' = Some (JStr ''Ana'')"
    and d: "map_of [(''nombre'', JStr ''Ana''), (''role'', JStr ''admin''),
      (''email'', JStr ''ana@x.com'')] ''email'' = Some (JStr ''ana@x.com'')"
    by simp_all
  have t: "truthy (JStr ''Ana'')" and t': "truthy (JStr ''ana@x.com'')"
    by simp_all
  from create_user_payload [OF a b c d t t', of "always (Inr ana_created)"] a b c d t t'
  show ?thesis by simp
qed

subsection \<open>Update\<close>

text \<open>
  C5 fails on the code for a JSON body that is not an object: \<open>PUT /users/<id>\<close> with
  the body \<open>42\<close> contains neither key, but \<open>'nombre' in data\<close> raises \<open>TypeError\<close> on
  the number, no handler catches it, and the answer is 500 instead of 400. No upstream
  call is issued.
\<close>

theorem update_user_number_body:
  "update_user up object_id number_request = ([], Inl TypeError) \<and>
   http_status (snd (update_user up object_id number_request)) = 500"
  by (simp add: update_user_def update_payload_def number_request_def)

theorem update_user_number_body_witness:
  "is_json number_request \<and> get_json number_request = Some (JInt 42) \<and>
   update_user (always (Inr ana_created)) ''abc123'' number_request = ([], Inl TypeError) \<and>
   http_status (snd (update_user (always (Inr ana_created)) ''abc123'' number_request)) = 500"
  using update_user_number_body [of "always (Inr ana_created)" "''abc123''"]
  by (simp add: number_request_def)

text \<open>
  C10: update validation looks at key presence only. For an update request whose JSON
  body is an object holding the key \<open>nombre\<close> or \<open>email\<close> with any value \<open>v\<close>, the empty
  string and null included, \<open>update_user\<close> issues one \<open>PUT\<close> whose body carries that key
  with the value \<open>v\<close>, and answers with the outcome of that call, not with its own 400.
  \<open>create_user\<close> on the same body answers 400 without an upstream call when \<open>v\<close> is
  empty or otherwise falsy.
\<close>

theorem update_user_presence_only:
  assumes "is_json rq" and "get_json rq = Some (JObj kvs)"
    and "key = ''nombre'' \<or> key = ''email''"
    and "map_of kvs key = Some v"
    and "payload =
      (case map_of kvs ''nombre'' of None \<Rightarrow> [] | Some a \<Rightarrow> [(''nombre'', a)]) @
      (case map_of kvs ''email'' of None \<Rightarrow> [] | Some b \<Rightarrow> [(''email'', b)])"
    and "call = \<lparr>call_method = PUT, call_url = BACKENDLESS_API_URL @ ''/'' @ object_id,
                    call_json = Some (JObj payload)\<rparr>"
  shows "map_of payload key = Some v \<and>
         update_user up object_id rq =
           ([call], case up call of
                      Inl msg \<Rightarrow> connectivity_error msg
                    | Inr r \<Rightarrow> backendless_response r) \<and>
         (\<not> truthy v \<longrightarrow>
            fst (create_user up rq) = [] \<and> http_status (snd (create_user up rq)) = 400)"
proof -
  from assms(3,4,5) have p: "map_of payload key = Some v"
    by (auto split: option.splits)
  then have "payload \<noteq> []" by auto
  with assms(1,2,5,6) have u: "update_user up object_id rq =
      ([call], case up call of
                 Inl msg \<Rightarrow> connectivity_error msg
               | Inr r \<Rightarrow> backendless_response r)"
    by (simp add: update_user_fields)
  have "fst (create_user up rq) = [] \<and> http_status (snd (create_user up rq)) = 400"
    if "\<not> truthy v"
  proof (rule create_user_missing_fields [OF assms(1,2)])
    from assms(3,4) that
    show "\<not> truthy (case map_of kvs ''nombre'' of None \<Rightarrow> JNull | Some v \<Rightarrow> v) \<or>
          \<not> truthy (case map_of kvs ''email'' of None \<Rightarrow> JNull | Some v \<Rightarrow> v)"
      by auto
  qed
  with p u show ?thesis by simp
qed

theorem update_user_presence_only_witness:
  "is_json empty_nombre_request \<and>
   get_json empty_nombre_request = Some (JObj [(''nombre'', JStr '''')]) \<and>
   map_of [(''nombre'', JStr '''')] ''nombre'' = Some (JStr '''') \<and>
   \<not> truthy (JStr '''') \<and>
   update_user (always (Inr ana_created)) ''abc123'' empty_nombre_request =
     ([\<lparr>call_method = PUT, call_url = BACKENDLESS_API_URL @ ''/'' @ ''abc123'',
        call_json = Some (JObj [(''nombre'', JStr '''')])\<rparr>],
      backendless_response ana_created) \<and>
   fst (create_user (always (Inr ana_created)) empty_nombre_request) = [] \<and>
   http_status (snd (create_user (always (Inr ana_created)) empty_nombre_request)) = 400 \<and>
   is_json null_email_request \<and>
   get_json null_email_request = Some (JObj [(''email'', JNull)]) \<and>
   map_of [(''email'', JNull)] ''email'' = Some JNull \<and>
   \<not> truthy JNull \<and>
   update_user (always (Inr ana_created)) ''abc123'' null_email_request =
     ([\<lparr>call_method = PUT, call_url = BACKENDLESS_API_URL @ ''/'' @ ''abc123'',
        call_json = Some (JObj [(''email'', JNull)])\<rparr>],
      backendless_response ana_created) \<and>
   fst (create_user (always (Inr ana_created)) null_email_request) = [] \<and>
   http_status (snd (create_user (always (Inr ana_created)) null_email_request)) = 400"
proof -
  let ?up = "always (Inr ana_created)"
  have a1: "is_json empty_nombre_request"
    and b1: "get_json empty_nombre_request = Some (JObj [(''nombre'', JStr '''')])"
    and a2: "is_json null_email_request"
    and b2: "get_json null_email_request = Some (JObj [(''email'', JNull)])"
    by (simp_all add: empty_nombre_request_def null_email_request_def)
  have k1: "''nombre'' = ''nombre'' \<or> ''nombre'' = ''email''"
    and k2: "''email'' = ''nombre'' \<or> ''email'' = ''email''"
    by simp_all
  have m1: "map_of [(''nombre'', JStr '''')] ''nombre'' = Some (JStr '''')"
    and m2: "map_of [(''email'', JNull)] ''email'' = Some JNull"
    by simp_all
  have f1: "\<not> truthy (JStr '''')" and f2: "\<not> truthy JNull"
    by simp_all
  from update_user_presence_only [where object_id = "''abc123''" and up = ?up,
        OF a1 b1 k1 m1 refl refl]
    update_user_presence_only [where object_id = "''abc123''" and up = ?up,
        OF a2 b2 k2 m2 refl refl]
    a1 b1 m1 f1 a2 b2 m2 f2
  show ?thesis by (simp add: always_def)
qed

end
